theory Spec2Isabelle
  imports Main
begin

section \<open>The upload button of \<open>userport/static/js/upload_url.js\<close>\<close>

text \<open>
  The file defines one class, \<open>UploadURL\<close>, with a constructor and one method,
  \<open>handleUploadButtonBlick\<close>. Both work on the page: the document, the object the
  constructor initialises, \<open>window.location\<close> and the network. The page is an explicit
  state, \<open>world\<close>, that every operation takes and returns.
\<close>

subsection \<open>Values, elements, objects, requests\<close>

text \<open>
  The JavaScript values the class stores in its fields: \<open>undefined\<close> (a field not
  assigned yet), \<open>null\<close> (what \<open>querySelector\<close> returns when nothing matches), a string,
  and a reference to an element, by the element's identity.
\<close>

datatype jsval = JUndefined | JNull | JStr string | JElem nat

datatype error = TypeError

text \<open>
  \<open>this.handleUploadButtonBlick.bind(this)\<close> is a closure over the object; it is kept as
  the address of that object.
\<close>

datatype listener = BoundHandleUploadButtonBlick nat

record element =
  el_value :: string
  el_listeners :: "(string \<times> listener) list"

record UploadURL =
  uploadButton :: jsval
  csrfToken :: jsval

record request =
  req_url :: string
  req_method :: string
  req_headers :: "(string \<times> string) list"
  req_body :: string

text \<open>What becomes of a request; the promise \<open>fetch\<close> returns stands for it.\<close>

datatype outcome = Fulfilled nat | Rejected

datatype promise = Promise outcome

text \<open>The argument of the listener: a click is a mouse event.\<close>

record event =
  ev_type :: string
  ev_target :: nat
  ev_clientX :: int
  ev_clientY :: int

text \<open>
  The page. \<open>elements\<close> is the store of element objects and \<open>document\<close> says which
  element a selector matches; \<open>heap\<close> is the store of \<open>UploadURL\<close> objects, and
  \<open>next_addr\<close> the address \<open>new\<close> gives out next. \<open>network\<close> lists the requests
  handed to \<open>fetch\<close>, oldest first, and \<open>server\<close> is what the network will answer.
\<close>

record world =
  elements :: "nat \<Rightarrow> element"
  document :: "string \<rightharpoonup> nat"
  heap :: "nat \<Rightarrow> UploadURL"
  next_addr :: nat
  location_protocol :: string
  location_host :: string
  network :: "request list"
  server :: "request \<Rightarrow> outcome"

subsection \<open>JSON\<close>

datatype json =
    JsonNull
  | JsonBool bool
  | JsonNumber int
  | JsonString string
  | JsonArray "json list"
  | JsonObject "(string \<times> json) list"

definition hex_digit :: "nat \<Rightarrow> char" where
  "hex_digit n = ''0123456789abcdef'' ! (n mod 16)"

text \<open>The escapes of \<open>JSON.stringify\<close> for one character of a string.\<close>

definition quote_char :: "char \<Rightarrow> string" where
  "quote_char c =
     (if c = CHR 0x22 then [CHR 0x5C, CHR 0x22]
      else if c = CHR 0x5C then [CHR 0x5C, CHR 0x5C]
      else if c = CHR 0x08 then [CHR 0x5C, CHR ''b'']
      else if c = CHR 0x09 then [CHR 0x5C, CHR ''t'']
      else if c = CHR 0x0A then [CHR 0x5C, CHR ''n'']
      else if c = CHR 0x0C then [CHR 0x5C, CHR ''f'']
      else if c = CHR 0x0D then [CHR 0x5C, CHR ''r'']
      else if (of_char c :: nat) < 32
        then [CHR 0x5C, CHR ''u'', CHR ''0'', CHR ''0'',
              hex_digit (of_char c div 16), hex_digit (of_char c)]
      else [c])"

definition quote_string :: "string \<Rightarrow> string" where
  "quote_string s = CHR 0x22 # concat (map quote_char s) @ [CHR 0x22]"

function digits :: "nat \<Rightarrow> string" where
  "digits n = (if n < 10 then [hex_digit n] else digits (n div 10) @ [hex_digit (n mod 10)])"
  by pat_completeness auto
termination
  by (relation "measure id") auto

definition number_string :: "int \<Rightarrow> string" where
  "number_string i = (if i < 0 then CHR ''-'' # digits (nat (- i)) else digits (nat i))"

fun join :: "string \<Rightarrow> string list \<Rightarrow> string" where
  "join sep [] = []"
| "join sep [x] = x"
| "join sep (x # y # ys) = x @ sep @ join sep (y # ys)"

text \<open>\<open>JSON.stringify\<close> with one argument: no indentation, members in insertion order.\<close>

fun JSON_stringify :: "json \<Rightarrow> string" where
  "JSON_stringify JsonNull = ''null''"
| "JSON_stringify (JsonBool b) = (if b then ''true'' else ''false'')"
| "JSON_stringify (JsonNumber i) = number_string i"
| "JSON_stringify (JsonString s) = quote_string s"
| "JSON_stringify (JsonArray xs) =
     CHR ''['' # join '','' (map JSON_stringify xs) @ '']''"
| "JSON_stringify (JsonObject ms) =
     CHR 0x7B # join '',''
       (map (\<lambda>(k, v). quote_string k @ '':'' @ JSON_stringify v) ms) @ [CHR 0x7D]"

text \<open>
  \<open>JSON.parse\<close>, by recursive descent. A \<open>SyntaxError\<close> is \<open>None\<close>. Numbers are the
  integers, as in \<open>json\<close>; a four-digit hexadecimal escape is read up to code 255, the
  characters a \<open>string\<close> here has.
\<close>

definition is_ws :: "char \<Rightarrow> bool" where
  "is_ws c = (c = CHR '' '' \<or> c = CHR 0x09 \<or> c = CHR 0x0A \<or> c = CHR 0x0D)"

definition skip_ws :: "string \<Rightarrow> string" where
  "skip_ws s = dropWhile is_ws s"

definition unescape :: "char \<Rightarrow> char option" where
  "unescape e =
     (if e = CHR 0x22 \<or> e = CHR 0x5C \<or> e = CHR ''/'' then Some e
      else if e = CHR ''b'' then Some (CHR 0x08)
      else if e = CHR ''t'' then Some (CHR 0x09)
      else if e = CHR ''n'' then Some (CHR 0x0A)
      else if e = CHR ''f'' then Some (CHR 0x0C)
      else if e = CHR ''r'' then Some (CHR 0x0D)
      else None)"

definition hex_value :: "char \<Rightarrow> nat option" where
  "hex_value c =
     (let n = (of_char c :: nat)
      in if 48 \<le> n \<and> n \<le> 57 then Some (n - 48)
         else if 97 \<le> n \<and> n \<le> 102 then Some (n - 87)
         else if 65 \<le> n \<and> n \<le> 70 then Some (n - 55)
         else None)"

definition unicode_escape :: "string \<Rightarrow> char option" where
  "unicode_escape h =
     (case map hex_value h of
        [Some a, Some b, Some x, Some y] \<Rightarrow>
          (if a = 0 \<and> b = 0 then Some (char_of (16 * x + y)) else None)
      | _ \<Rightarrow> None)"

text \<open>
  The characters of a string after its opening quote, with the input left after the
  closing one. \<open>esc\<close> says that the character before was an unescaped backslash.
\<close>

fun parse_chars :: "bool \<Rightarrow> string \<Rightarrow> (string \<times> string) option" where
  "parse_chars esc [] = None"
| "parse_chars False (c # cs) =
     (if c = CHR 0x22 then Some ([], cs)
      else if c = CHR 0x5C then parse_chars True cs
      else if (of_char c :: nat) < 32 then None
      else map_option (apfst ((#) c)) (parse_chars False cs))"
| "parse_chars True (c # cs) =
     (if c = CHR ''u'' then
        (case unicode_escape (take 4 cs) of
           None \<Rightarrow> None
         | Some d \<Rightarrow> map_option (apfst ((#) d)) (parse_chars False (drop 4 cs)))
      else
        (case unescape c of
           None \<Rightarrow> None
         | Some d \<Rightarrow> map_option (apfst ((#) d)) (parse_chars False cs)))"

definition is_digit :: "char \<Rightarrow> bool" where
  "is_digit c = (48 \<le> (of_char c :: nat) \<and> (of_char c :: nat) \<le> 57)"

definition digits_value :: "string \<Rightarrow> nat" where
  "digits_value ds = foldl (\<lambda>n c. 10 * n + (of_char c - 48)) 0 ds"

definition parse_number :: "string \<Rightarrow> (json \<times> string) option" where
  "parse_number s =
     (let neg = (take 1 s = ''-'');
          r = (if neg then drop 1 s else s);
          ds = takeWhile is_digit r
      in if ds = [] \<or> (1 < length ds \<and> take 1 ds = ''0'') then None
         else Some (JsonNumber (if neg then - int (digits_value ds) else int (digits_value ds)),
                    dropWhile is_digit r))"

text \<open>The first argument bounds the depth of the descent; the length of the text is enough.\<close>

fun parse_value :: "nat \<Rightarrow> string \<Rightarrow> (json \<times> string) option"
  and parse_elements :: "nat \<Rightarrow> string \<Rightarrow> (json list \<times> string) option"
  and parse_members :: "nat \<Rightarrow> string \<Rightarrow> ((string \<times> json) list \<times> string) option"
where
  "parse_value 0 s = None"
| "parse_value (Suc n) s =
     (case skip_ws s of
        [] \<Rightarrow> None
      | c # r \<Rightarrow>
          if c = CHR 0x7B then
            (if take 1 (skip_ws r) = [CHR 0x7D] then Some (JsonObject [], drop 1 (skip_ws r))
             else map_option (apfst JsonObject) (parse_members n r))
          else if c = CHR ''['' then
            (if take 1 (skip_ws r) = '']'' then Some (JsonArray [], drop 1 (skip_ws r))
             else map_option (apfst JsonArray) (parse_elements n r))
          else if c = CHR 0x22 then map_option (apfst JsonString) (parse_chars False r)
          else if take 4 (c # r) = ''true'' then Some (JsonBool True, drop 4 (c # r))
          else if take 5 (c # r) = ''false'' then Some (JsonBool False, drop 5 (c # r))
          else if take 4 (c # r) = ''null'' then Some (JsonNull, drop 4 (c # r))
          else parse_number (c # r))"
| "parse_elements 0 s = None"
| "parse_elements (Suc n) s =
     (case parse_value n s of
        None \<Rightarrow> None
      | Some (v, r) \<Rightarrow>
          (case skip_ws r of
             [] \<Rightarrow> None
           | c # r' \<Rightarrow>
               if c = CHR '','' then map_option (apfst ((#) v)) (parse_elements n r')
               else if c = CHR '']'' then Some ([v], r')
               else None))"
| "parse_members 0 s = None"
| "parse_members (Suc n) s =
     (case skip_ws s of
        [] \<Rightarrow> None
      | q # r \<Rightarrow>
          if q \<noteq> CHR 0x22 then None
          else
            (case parse_chars False r of
               None \<Rightarrow> None
             | Some (k, r1) \<Rightarrow>
                 (case skip_ws r1 of
                    [] \<Rightarrow> None
                  | c # r2 \<Rightarrow>
                      if c \<noteq> CHR '':'' then None
                      else
                        (case parse_value n r2 of
                           None \<Rightarrow> None
                         | Some (v, r3) \<Rightarrow>
                             (case skip_ws r3 of
                                [] \<Rightarrow> None
                              | d # r4 \<Rightarrow>
                                  if d = CHR '','' then
                                    map_option (apfst ((#) (k, v))) (parse_members n r4)
                                  else if d = CHR 0x7D then Some ([(k, v)], r4)
                                  else None)))))"

definition JSON_parse :: "string \<Rightarrow> json option" where
  "JSON_parse s =
     (case parse_value (Suc (length s)) s of
        None \<Rightarrow> None
      | Some (v, r) \<Rightarrow> if skip_ws r = [] then Some v else None)"

subsection \<open>URLs\<close>

text \<open>
  The path of an absolute \<open>http\<close> URL, as the platform's URL parser splits the text that
  \<open>fetch\<close> is given: after the scheme every slash is skipped, the authority runs up to
  the next slash, \<open>?\<close> or \<open>#\<close>, and the path from there up to a \<open>?\<close> or \<open>#\<close>. A URL
  with no authority, or another scheme, has none.
\<close>

definition is_slash :: "char \<Rightarrow> bool" where
  "is_slash c = (c = CHR ''/'' \<or> c = CHR 0x5C)"

definition is_authority_end :: "char \<Rightarrow> bool" where
  "is_authority_end c = (is_slash c \<or> c = CHR ''?'' \<or> c = CHR ''#'')"

definition is_path_end :: "char \<Rightarrow> bool" where
  "is_path_end c = (c = CHR ''?'' \<or> c = CHR ''#'')"

definition url_path :: "string \<Rightarrow> string option" where
  "url_path u =
     (if take 5 u = ''http:'' then
        (let r = dropWhile is_slash (drop 5 u);
             authority = takeWhile (\<lambda>c. \<not> is_authority_end c) r;
             rest = dropWhile (\<lambda>c. \<not> is_authority_end c) r;
             path = takeWhile (\<lambda>c. \<not> is_path_end c) rest
         in if authority = [] then None
            else Some (if path = [] then ''/'' else path))
      else None)"

text \<open>
  \<open>window.location.host\<close> of a page that a server delivered is a host name, with a port
  or without: it is not empty and holds none of the characters that end an authority.
\<close>

definition valid_host :: "string \<Rightarrow> bool" where
  "valid_host h = (h \<noteq> [] \<and> list_all (\<lambda>c. \<not> is_authority_end c) h)"

subsection \<open>The platform calls the class makes\<close>

definition querySelector :: "string \<Rightarrow> world \<Rightarrow> jsval" where
  "querySelector sel w = (case document w sel of None \<Rightarrow> JNull | Some i \<Rightarrow> JElem i)"

text \<open>
  \<open>target.addEventListener(type, l)\<close>. Only an element has the method: on \<open>null\<close> or
  \<open>undefined\<close> the property access throws, on a string the call does. A closure made
  by \<open>bind\<close> is a new function each time, so the listener is always appended.
\<close>

definition addEventListener :: "jsval \<Rightarrow> string \<Rightarrow> listener \<Rightarrow> world \<Rightarrow> error + world" where
  "addEventListener target type l w =
     (case target of
        JElem i \<Rightarrow>
          Inr (w\<lparr>elements := (elements w)
                 (i := (elements w i)\<lparr>el_listeners := el_listeners (elements w i) @ [(type, l)]\<rparr>)\<rparr>)
      | _ \<Rightarrow> Inl TypeError)"

text \<open>\<open>target.value\<close>: throws on \<open>null\<close> and \<open>undefined\<close>; a string has no such property.\<close>

definition get_value :: "jsval \<Rightarrow> world \<Rightarrow> error + jsval" where
  "get_value target w =
     (case target of
        JElem i \<Rightarrow> Inr (JStr (el_value (elements w i)))
      | JStr s \<Rightarrow> Inr JUndefined
      | _ \<Rightarrow> Inl TypeError)"

text \<open>The string a header value is converted to.\<close>

definition ToString :: "jsval \<Rightarrow> string" where
  "ToString v =
     (case v of
        JUndefined \<Rightarrow> ''undefined''
      | JNull \<Rightarrow> ''null''
      | JStr s \<Rightarrow> s
      | JElem i \<Rightarrow> ''[object HTMLElement]'')"

record request_init =
  init_method :: string
  init_headers :: "(string \<times> string) list"
  init_body :: string

text \<open>
  \<open>fetch(url, init)\<close> hands the request to the network and returns at once, with a
  promise for what becomes of it.
\<close>

definition fetch :: "string \<Rightarrow> request_init \<Rightarrow> world \<Rightarrow> promise \<times> world" where
  "fetch url init w =
     (let r = \<lparr>req_url = url, req_method = init_method init,
               req_headers = init_headers init, req_body = init_body init\<rparr>
      in (Promise (server w r), w\<lparr>network := network w @ [r]\<rparr>))"

subsection \<open>The class\<close>

text \<open>
  \<open>new UploadURL()\<close>: a fresh object, then the three statements of the constructor in
  their order. A statement that throws ends the constructor; what the statements before
  it did to the page stays done.
\<close>

definition UploadURL_constructor :: "world \<Rightarrow> (error + nat) \<times> world" where
  "UploadURL_constructor w =
     (let this = next_addr w;
          w1 = w\<lparr>heap := (heap w)(this := \<lparr>uploadButton = JUndefined, csrfToken = JUndefined\<rparr>),
                 next_addr := Suc this\<rparr>;
          w2 = w1\<lparr>heap := (heap w1)
                 (this := (heap w1 this)\<lparr>uploadButton := querySelector ''#upload-url-btn'' w1\<rparr>)\<rparr>
      in case addEventListener (uploadButton (heap w2 this)) ''click''
                (BoundHandleUploadButtonBlick this) w2 of
           Inl e \<Rightarrow> (Inl e, w2)
         | Inr w3 \<Rightarrow>
             (case get_value (querySelector ''#upload_url_csrf_token'' w3) w3 of
                Inl e \<Rightarrow> (Inl e, w3)
              | Inr v \<Rightarrow>
                  (Inr this,
                   w3\<lparr>heap := (heap w3)(this := (heap w3 this)\<lparr>csrfToken := v\<rparr>)\<rparr>)))"

definition handleUploadButtonBlick :: "nat \<Rightarrow> event \<Rightarrow> world \<Rightarrow> jsval \<times> world" where
  "handleUploadButtonBlick this event w =
     (let upload_url =
            JsonObject [(''url'', JsonString ''https://flask.palletsprojects.com/en/3.0.x/extensions'')];
          host = location_host w;
          url = ''http://'' @ host @ ''/api/v1/upload_url'';
          (p, w') = fetch url
            \<lparr>init_method = ''POST'',
             init_headers = [(''Content-Type'', ''application/json''),
                             (''X-CSRFToken'', ToString (csrfToken (heap w this)))],
             init_body = JSON_stringify upload_url\<rparr> w
      in (JUndefined, w'))"

subsection \<open>The page around the class\<close>

fun run_listener :: "listener \<Rightarrow> event \<Rightarrow> world \<Rightarrow> world" where
  "run_listener (BoundHandleUploadButtonBlick this) ev w = snd (handleUploadButtonBlick this ev w)"

text \<open>
  Delivering an event to an element calls the listeners registered on it for the
  event's type, in the order of their registration.
\<close>

definition dispatchEvent :: "nat \<Rightarrow> event \<Rightarrow> world \<Rightarrow> world" where
  "dispatchEvent i ev w =
     fold (\<lambda>(type, l) w'. if type = ev_type ev then run_listener l ev w' else w')
       (el_listeners (elements w i)) w"

text \<open>
  What can happen on the page after a construction: an event is delivered to an element,
  the value of an element of the document is changed, another \<open>UploadURL\<close> is made.
\<close>

datatype action = Dispatch nat event | SetValue string string | Construct

fun step :: "action \<Rightarrow> world \<Rightarrow> world" where
  "step (Dispatch i ev) w = dispatchEvent i ev w"
| "step (SetValue sel v) w =
     (case document w sel of
        None \<Rightarrow> w
      | Some i \<Rightarrow> w\<lparr>elements := (elements w)(i := (elements w i)\<lparr>el_value := v\<rparr>)\<rparr>)"
| "step Construct w = snd (UploadURL_constructor w)"

definition run :: "action list \<Rightarrow> world \<Rightarrow> world" where
  "run acts w = fold step acts w"

subsection \<open>Observing a click\<close>

text \<open>The request that a call of the handler puts on the network: the newest one after it.\<close>

definition click_request :: "nat \<Rightarrow> event \<Rightarrow> world \<Rightarrow> request" where
  "click_request this ev w = last (network (snd (handleUploadButtonBlick this ev w)))"

text \<open>
  The listeners registered on an element for a type of event, in the order of their
  registration, and the request that a call of a listener puts on the network.
\<close>

definition listeners_for :: "string \<Rightarrow> nat \<Rightarrow> world \<Rightarrow> listener list" where
  "listeners_for type i w = map snd (filter (\<lambda>(t, l). t = type) (el_listeners (elements w i)))"

fun listener_request :: "listener \<Rightarrow> event \<Rightarrow> world \<Rightarrow> request" where
  "listener_request (BoundHandleUploadButtonBlick this) ev w = click_request this ev w"

subsection \<open>Example pages\<close>

text \<open>
  A page served over https with the button (element 3) and the hidden field (element 4,
  holding \<open>tok1\<close>), no listener and no object yet; the same page with the hidden field
  missing, and with the button missing; a click.
\<close>

definition example_page :: world where
  "example_page =
     \<lparr>elements = (\<lambda>i. \<lparr>el_value = (if i = 4 then ''tok1'' else []), el_listeners = []\<rparr>),
      document = [''#upload-url-btn'' \<mapsto> 3, ''#upload_url_csrf_token'' \<mapsto> 4],
      heap = (\<lambda>a. \<lparr>uploadButton = JUndefined, csrfToken = JUndefined\<rparr>),
      next_addr = 0,
      location_protocol = ''https:'',
      location_host = ''example.com:8080'',
      network = [],
      server = (\<lambda>r. Rejected)\<rparr>"

definition page_without_token :: world where
  "page_without_token = example_page\<lparr>document := [''#upload-url-btn'' \<mapsto> 3]\<rparr>"

definition page_without_button :: world where
  "page_without_button = example_page\<lparr>document := [''#upload_url_csrf_token'' \<mapsto> 4]\<rparr>"

definition example_click :: event where
  "example_click = \<lparr>ev_type = ''click'', ev_target = 3, ev_clientX = 10, ev_clientY = 20\<rparr>"

definition other_click :: event where
  "other_click = \<lparr>ev_type = ''click'', ev_target = 3, ev_clientX = 300, ev_clientY = 7\<rparr>"

text \<open>The example page after a construction, and after the hidden field was then changed.\<close>

definition constructed_page :: world where
  "constructed_page = snd (UploadURL_constructor example_page)"

definition changed_page :: world where
  "changed_page = run [SetValue ''#upload_url_csrf_token'' ''tok2''] constructed_page"

text \<open>
  The example page opened from a file, where \<open>window.location.host\<close> is the empty
  string, after a construction; and the example page after two constructions.
\<close>

definition local_page :: world where
  "local_page = snd (UploadURL_constructor (example_page\<lparr>location_host := []\<rparr>))"

definition twice_constructed_page :: world where
  "twice_constructed_page = run [Construct] constructed_page"

section \<open>Properties\<close>

subsection \<open>What one call of the handler does\<close>

lemma handler_result:
  "handleUploadButtonBlick this ev w =
     (JUndefined,
      w\<lparr>network := network w @
         [\<lparr>req_url = ''http://'' @ location_host w @ ''/api/v1/upload_url'',
           req_method = ''POST'',
           req_headers = [(''Content-Type'', ''application/json''),
                          (''X-CSRFToken'', ToString (csrfToken (heap w this)))],
           req_body = JSON_stringify
             (JsonObject [(''url'', JsonString ''https://flask.palletsprojects.com/en/3.0.x/extensions'')])\<rparr>]\<rparr>)"
  by (simp add: handleUploadButtonBlick_def fetch_def Let_def del: JSON_stringify.simps)

lemma click_request_eq:
  "click_request this ev w =
     \<lparr>req_url = ''http://'' @ location_host w @ ''/api/v1/upload_url'',
      req_method = ''POST'',
      req_headers = [(''Content-Type'', ''application/json''),
                     (''X-CSRFToken'', ToString (csrfToken (heap w this)))],
      req_body = JSON_stringify
        (JsonObject [(''url'', JsonString ''https://flask.palletsprojects.com/en/3.0.x/extensions'')])\<rparr>"
  by (simp add: click_request_def handler_result)

lemma handler_network:
  "network (snd (handleUploadButtonBlick this ev w)) = network w @ [click_request this ev w]"
  by (simp add: click_request_def handler_result)

lemma parse_payload:
  "JSON_parse (JSON_stringify
     (JsonObject [(''url'', JsonString ''https://flask.palletsprojects.com/en/3.0.x/extensions'')])) =
   Some (JsonObject [(''url'', JsonString ''https://flask.palletsprojects.com/en/3.0.x/extensions'')])"
  by code_simp

lemma dropWhile_is_slash_host:
  "valid_host h \<Longrightarrow> dropWhile is_slash (''//'' @ h @ t) = h @ t"
  by (cases h) (auto simp: valid_host_def is_slash_def is_authority_end_def)

lemma takeWhile_host:
  "list_all (\<lambda>c. \<not> is_authority_end c) h \<Longrightarrow>
   takeWhile (\<lambda>c. \<not> is_authority_end c) (h @ CHR ''/'' # t) = h"
  by (induction h) (simp_all add: is_slash_def is_authority_end_def)

lemma dropWhile_host:
  "list_all (\<lambda>c. \<not> is_authority_end c) h \<Longrightarrow>
   dropWhile (\<lambda>c. \<not> is_authority_end c) (h @ CHR ''/'' # t) = CHR ''/'' # t"
  by (induction h) (simp_all add: is_slash_def is_authority_end_def)

lemma url_path_upload:
  assumes "valid_host h"
  shows "url_path (''http://'' @ h @ ''/api/v1/upload_url'') = Some ''/api/v1/upload_url''"
proof -
  have ne: "h \<noteq> []" using assms by (simp add: valid_host_def)
  have r: "dropWhile is_slash (drop 5 (''http://'' @ h @ ''/api/v1/upload_url'')) = h @ ''/api/v1/upload_url''"
    using dropWhile_is_slash_host [OF assms, of "''/api/v1/upload_url''"] by simp
  have la: "list_all (\<lambda>c. \<not> is_authority_end c) h" using assms by (simp add: valid_host_def)
  have a: "takeWhile (\<lambda>c. \<not> is_authority_end c) (h @ ''/api/v1/upload_url'') = h"
    using takeWhile_host [OF la] by simp
  have d: "dropWhile (\<lambda>c. \<not> is_authority_end c) (h @ ''/api/v1/upload_url'') = ''/api/v1/upload_url''"
    using dropWhile_host [OF la] by simp
  have p: "takeWhile (\<lambda>c. \<not> is_path_end c) ''/api/v1/upload_url'' = ''/api/v1/upload_url''"
    by (simp add: is_path_end_def)
  have t: "take 5 (''http://'' @ h @ ''/api/v1/upload_url'') = ''http:''" by simp
  show ?thesis
    unfolding url_path_def t Let_def r a d p using ne by simp
qed


lemma constructor_ok:
  assumes "document w ''#upload-url-btn'' = Some b"
    and "document w ''#upload_url_csrf_token'' = Some t"
  shows "UploadURL_constructor w =
     (Inr (next_addr w),
      w\<lparr>elements := (elements w)
           (b := (elements w b)\<lparr>el_listeners := el_listeners (elements w b) @
              [(''click'', BoundHandleUploadButtonBlick (next_addr w))]\<rparr>),
        heap := (heap w)
           (next_addr w := \<lparr>uploadButton = JElem b, csrfToken = JStr (el_value (elements w t))\<rparr>),
        next_addr := Suc (next_addr w)\<rparr>)"
  using assms
  by (simp add: UploadURL_constructor_def querySelector_def addEventListener_def
      get_value_def Let_def)

lemma constructor_no_button:
  assumes "document w ''#upload-url-btn'' = None"
  shows "UploadURL_constructor w =
     (Inl TypeError,
      w\<lparr>heap := (heap w)(next_addr w := \<lparr>uploadButton = JNull, csrfToken = JUndefined\<rparr>),
        next_addr := Suc (next_addr w)\<rparr>)"
  using assms
  by (simp add: UploadURL_constructor_def querySelector_def addEventListener_def Let_def)

lemma constructor_no_token:
  assumes "document w ''#upload-url-btn'' = Some b"
    and "document w ''#upload_url_csrf_token'' = None"
  shows "UploadURL_constructor w =
     (Inl TypeError,
      w\<lparr>elements := (elements w)
           (b := (elements w b)\<lparr>el_listeners := el_listeners (elements w b) @
              [(''click'', BoundHandleUploadButtonBlick (next_addr w))]\<rparr>),
        heap := (heap w)(next_addr w := \<lparr>uploadButton = JElem b, csrfToken = JUndefined\<rparr>),
        next_addr := Suc (next_addr w)\<rparr>)"
  using assms
  by (simp add: UploadURL_constructor_def querySelector_def addEventListener_def
      get_value_def Let_def)

lemma constructor_succeeds_only_with_both:
  assumes "UploadURL_constructor w = (Inr a, w')"
  shows "\<exists>b t. document w ''#upload-url-btn'' = Some b \<and>
               document w ''#upload_url_csrf_token'' = Some t"
proof (cases "document w ''#upload-url-btn''")
  case None
  with assms show ?thesis by (simp add: constructor_no_button)
next
  case (Some b)
  show ?thesis
  proof (cases "document w ''#upload_url_csrf_token''")
    case None
    with Some assms show ?thesis by (simp add: constructor_no_token)
  next
    case (Some t)
    with \<open>document w ''#upload-url-btn'' = Some b\<close> show ?thesis by simp
  qed
qed

lemma constructor_frame:
  "next_addr (snd (UploadURL_constructor w)) = Suc (next_addr w)"
  "location_host (snd (UploadURL_constructor w)) = location_host w"
  "document (snd (UploadURL_constructor w)) = document w"
  "a < next_addr w \<Longrightarrow> heap (snd (UploadURL_constructor w)) a = heap w a"
  by (cases "document w ''#upload-url-btn''"; cases "document w ''#upload_url_csrf_token''";
      simp add: constructor_ok constructor_no_button constructor_no_token)+

lemma run_listener_frame:
  "heap (run_listener l ev w) = heap w"
  "document (run_listener l ev w) = document w"
  "next_addr (run_listener l ev w) = next_addr w"
  "location_host (run_listener l ev w) = location_host w"
  by (cases l; simp add: handler_result)+

lemma fold_listeners_frame:
  "heap (fold (\<lambda>(type, l) w'. if type = T then run_listener l ev w' else w') ls w) = heap w \<and>
   next_addr (fold (\<lambda>(type, l) w'. if type = T then run_listener l ev w' else w') ls w) = next_addr w \<and>
   location_host (fold (\<lambda>(type, l) w'. if type = T then run_listener l ev w' else w') ls w) = location_host w \<and>
   document (fold (\<lambda>(type, l) w'. if type = T then run_listener l ev w' else w') ls w) = document w"
proof (induction ls arbitrary: w)
  case Nil
  show ?case by simp
next
  case (Cons x ls)
  obtain ty l where x: "x = (ty, l)" by (cases x)
  show ?case
    using Cons.IH [of "run_listener l ev w"] Cons.IH [of w]
    by (simp add: x run_listener_frame)
qed

lemma dispatchEvent_frame:
  "heap (dispatchEvent i ev w) = heap w"
  "document (dispatchEvent i ev w) = document w"
  "next_addr (dispatchEvent i ev w) = next_addr w"
  "location_host (dispatchEvent i ev w) = location_host w"
  using fold_listeners_frame [of "ev_type ev" ev "el_listeners (elements w i)" w]
  by (simp_all add: dispatchEvent_def)

lemma step_frame:
  assumes "a < next_addr w"
  shows "heap (step act w) a = heap w a \<and> a < next_addr (step act w) \<and>
         location_host (step act w) = location_host w \<and> document (step act w) = document w"
proof (cases act)
  case (Dispatch i ev)
  with assms show ?thesis by (simp add: dispatchEvent_frame)
next
  case (SetValue sel v)
  with assms show ?thesis by (simp split: option.splits)
next
  case Construct
  with assms show ?thesis by (simp add: constructor_frame)
qed

lemma run_frame:
  "a < next_addr w \<Longrightarrow>
   heap (run acts w) a = heap w a \<and> a < next_addr (run acts w) \<and>
   location_host (run acts w) = location_host w \<and> document (run acts w) = document w"
proof (induction acts arbitrary: w)
  case Nil
  then show ?case by (simp add: run_def)
next
  case (Cons act acts)
  have s: "heap (step act w) a = heap w a \<and> a < next_addr (step act w) \<and>
           location_host (step act w) = location_host w \<and> document (step act w) = document w"
    using step_frame [OF Cons.prems] .
  then have "heap (run acts (step act w)) a = heap (step act w) a \<and>
             a < next_addr (run acts (step act w)) \<and>
             location_host (run acts (step act w)) = location_host (step act w) \<and>
             document (run acts (step act w)) = document (step act w)"
    using Cons.IH [of "step act w"] by simp
  with s show ?case by (simp add: run_def)
qed

subsection \<open>An object after its construction\<close>

text \<open>
  No action on the page writes to an object that exists already, moves the page to
  another host or changes what a selector matches; so the token an object got at its
  construction is the token it has at every later click.
\<close>

lemma header_of_click:
  "map_of (req_headers (click_request this ev w)) ''X-CSRFToken'' =
     Some (ToString (csrfToken (heap w this)))"
  by (simp add: click_request_eq)

lemma token_after_run:
  assumes c: "UploadURL_constructor w0 = (Inr a, w1)"
    and t: "document w0 ''#upload_url_csrf_token'' = Some t"
  shows "csrfToken (heap (run acts w1) a) = JStr (el_value (elements w0 t))"
    and "location_host (run acts w1) = location_host w0"
    and "document (run acts w1) = document w0"
proof -
  obtain b where b: "document w0 ''#upload-url-btn'' = Some b"
    using constructor_succeeds_only_with_both [OF c] by blast
  have w1: "w1 = snd (UploadURL_constructor w0)"
    using c by simp
  have a: "a = next_addr w0"
    using c constructor_ok [OF b t] by simp
  have tok: "csrfToken (heap w1 a) = JStr (el_value (elements w0 t))"
    using c constructor_ok [OF b t] by auto
  have lt: "a < next_addr w1"
    by (simp add: a w1 constructor_frame)
  have fr: "heap (run acts w1) a = heap w1 a \<and> a < next_addr (run acts w1) \<and>
      location_host (run acts w1) = location_host w1 \<and> document (run acts w1) = document w1"
    using run_frame [OF lt] .
  show "csrfToken (heap (run acts w1) a) = JStr (el_value (elements w0 t))"
    using fr tok by simp
  show "location_host (run acts w1) = location_host w0"
    using fr by (simp add: w1 constructor_frame)
  show "document (run acts w1) = document w0"
    using fr by (simp add: w1 constructor_frame)
qed

subsection \<open>A click delivered to an element\<close>

text \<open>
  Delivering an event calls each listener of its type once; each call adds its one
  request. Listeners are never removed: what happens on the page later only appends to
  them, and only a construction does.
\<close>

lemma run_listener_effect:
  "elements (run_listener l ev w) = elements w"
  "network (run_listener l ev w) = network w @ [listener_request l ev w]"
  by (cases l; simp add: handler_result click_request_def del: JSON_stringify.simps)+

lemma listener_request_same:
  assumes "heap w' = heap w" and "location_host w' = location_host w"
  shows "listener_request l ev w' = listener_request l ev w"
  using assms by (cases l) (simp add: click_request_eq)

lemma fold_listeners_effect:
  "elements (fold (\<lambda>(type, l) w'. if type = T then run_listener l ev w' else w') ls w) = elements w \<and>
   network (fold (\<lambda>(type, l) w'. if type = T then run_listener l ev w' else w') ls w) =
     network w @ map (\<lambda>l. listener_request l ev w) (map snd (filter (\<lambda>(t, l). t = T) ls))"
proof (induction ls arbitrary: w)
  case Nil
  show ?case by simp
next
  case (Cons x ls)
  obtain ty l where x: "x = (ty, l)" by (cases x)
  have same: "listener_request l' ev (run_listener l ev w) = listener_request l' ev w" for l'
    by (rule listener_request_same) (simp_all add: run_listener_frame)
  show ?case
    using Cons.IH [of "run_listener l ev w"] Cons.IH [of w]
    by (simp add: x run_listener_effect same)
qed

lemma dispatchEvent_effect:
  "elements (dispatchEvent i ev w) = elements w"
  "network (dispatchEvent i ev w) =
     network w @ map (\<lambda>l. listener_request l ev w) (listeners_for (ev_type ev) i w)"
  using fold_listeners_effect [of "ev_type ev" ev "el_listeners (elements w i)" w]
  by (simp_all add: dispatchEvent_def listeners_for_def)

lemma constructor_listeners:
  "\<exists>xs. el_listeners (elements (snd (UploadURL_constructor w)) i) = el_listeners (elements w i) @ xs"
  by (cases "document w ''#upload-url-btn''"; cases "document w ''#upload_url_csrf_token''";
      simp add: constructor_ok constructor_no_button constructor_no_token)

lemma step_listeners:
  "\<exists>xs. el_listeners (elements (step act w) i) = el_listeners (elements w i) @ xs \<and>
        (act \<noteq> Construct \<longrightarrow> xs = [])"
proof (cases act)
  case (Dispatch j ev)
  then show ?thesis by (simp add: dispatchEvent_effect)
next
  case (SetValue sel v)
  then show ?thesis by (simp split: option.splits)
next
  case Construct
  then show ?thesis using constructor_listeners [of w i] by simp
qed

lemma run_listeners:
  "\<exists>xs. el_listeners (elements (run acts w) i) = el_listeners (elements w i) @ xs \<and>
        (Construct \<notin> set acts \<longrightarrow> xs = [])"
proof (induction acts arbitrary: w)
  case Nil
  show ?case by (simp add: run_def)
next
  case (Cons act acts)
  obtain xs where xs: "el_listeners (elements (step act w) i) = el_listeners (elements w i) @ xs"
      "act \<noteq> Construct \<longrightarrow> xs = []"
    using step_listeners [of act w i] by blast
  obtain ys where ys: "el_listeners (elements (run acts (step act w)) i) =
      el_listeners (elements (step act w) i) @ ys" "Construct \<notin> set acts \<longrightarrow> ys = []"
    using Cons.IH [of "step act w"] by blast
  have "run (act # acts) w = run acts (step act w)" by (simp add: run_def)
  then have "el_listeners (elements (run (act # acts) w) i) = el_listeners (elements w i) @ (xs @ ys)"
    using xs(1) ys(1) by simp
  moreover have "Construct \<notin> set (act # acts) \<longrightarrow> xs @ ys = []"
    using xs(2) ys(2) by auto
  ultimately show ?case by blast
qed

lemma listener_request_post:
  "req_method (listener_request l ev w) = ''POST''"
  "valid_host (location_host w) \<Longrightarrow>
     url_path (req_url (listener_request l ev w)) = Some ''/api/v1/upload_url''"
proof -
  obtain a where l: "l = BoundHandleUploadButtonBlick a" by (cases l)
  show "req_method (listener_request l ev w) = ''POST''"
    by (simp add: l click_request_eq)
  have "req_url (listener_request l ev w) = ''http://'' @ location_host w @ ''/api/v1/upload_url''"
    by (simp add: l click_request_eq)
  then show "url_path (req_url (listener_request l ev w)) = Some ''/api/v1/upload_url''"
    if "valid_host (location_host w)"
    using url_path_upload [OF that] by (simp only:)
qed

subsection \<open>The example pages\<close>

lemma example_facts:
  "document example_page ''#upload-url-btn'' = Some 3"
  "document example_page ''#upload_url_csrf_token'' = Some 4"
  "next_addr example_page = 0"
  "location_host example_page = ''example.com:8080''"
  "network example_page = []"
  "el_value (elements example_page 4) = ''tok1''"
  "el_listeners (elements example_page 3) = []"
  by (simp_all add: example_page_def)

lemma example_host_valid: "valid_host ''example.com:8080''"
  by (simp add: valid_host_def is_authority_end_def is_slash_def)

lemma constructed_page_eq:
  "UploadURL_constructor example_page = (Inr 0, constructed_page)"
  using constructor_ok [of example_page 3 4]
  by (simp add: constructed_page_def example_facts)

lemma constructed_facts:
  "csrfToken (heap constructed_page 0) = JStr ''tok1''"
  "el_listeners (elements constructed_page 3) = [(''click'', BoundHandleUploadButtonBlick 0)]"
  "location_host constructed_page = ''example.com:8080''"
  "document constructed_page ''#upload_url_csrf_token'' = Some 4"
  "next_addr constructed_page = Suc 0"
  "network constructed_page = []"
  using constructor_ok [of example_page 3 4]
  by (simp_all add: constructed_page_def example_facts)

lemma changed_facts:
  "el_value (elements changed_page 4) = ''tok2''"
  "csrfToken (heap changed_page 0) = JStr ''tok1''"
  "document changed_page ''#upload_url_csrf_token'' = Some 4"
  by (simp_all add: changed_page_def run_def constructed_facts)

lemma url_path_empty_host:
  "url_path ''http:///api/v1/upload_url'' = Some ''/v1/upload_url''"
  by code_simp

lemma local_page_eq:
  "UploadURL_constructor (example_page\<lparr>location_host := []\<rparr>) = (Inr 0, local_page)"
  using constructor_ok [of "example_page\<lparr>location_host := []\<rparr>" 3 4]
  by (simp add: local_page_def example_facts)

lemma local_facts:
  "location_host local_page = []"
  "network local_page = []"
  "listeners_for ''click'' 3 local_page = [BoundHandleUploadButtonBlick 0]"
  using constructor_ok [of "example_page\<lparr>location_host := []\<rparr>" 3 4]
  by (simp_all add: local_page_def listeners_for_def example_facts)

lemma twice_constructed_page_eq:
  "UploadURL_constructor constructed_page = (Inr (Suc 0), twice_constructed_page)"
proof -
  have d: "document constructed_page = document example_page"
    by (simp add: constructed_page_def constructor_frame)
  show ?thesis
    using constructor_ok [of constructed_page 3 4]
    by (simp add: twice_constructed_page_def run_def d example_facts constructed_facts)
qed

lemma twice_facts:
  "network twice_constructed_page = []"
  "listeners_for ''click'' 3 twice_constructed_page =
     [BoundHandleUploadButtonBlick 0, BoundHandleUploadButtonBlick (Suc 0)]"
proof -
  have d: "document constructed_page = document example_page"
    by (simp add: constructed_page_def constructor_frame)
  show "network twice_constructed_page = []"
    "listeners_for ''click'' 3 twice_constructed_page =
     [BoundHandleUploadButtonBlick 0, BoundHandleUploadButtonBlick (Suc 0)]"
    using constructor_ok [of constructed_page 3 4]
    by (simp_all add: twice_constructed_page_def run_def d example_facts constructed_facts
        listeners_for_def)
qed

lemma changed_page_host: "location_host changed_page = ''example.com:8080''"
  by (simp add: changed_page_def run_def constructed_facts)

lemma example_click_type: "ev_type example_click = ''click''"
  by (simp add: example_click_def)

section \<open>The properties of the specification\<close>

text \<open>
  C1, as stated, fails. The claim gives the URL of the request the path
  \<open>/api/v1/upload_url\<close> at every click. On the example page opened where
  \<open>window.location.host\<close> is the empty string, the object is constructed and a click is
  delivered to the button: the one request goes to \<open>http:///api/v1/upload_url\<close>, whose
  path is \<open>/v1/upload_url\<close>. And a click issues one request for each object
  constructed: after two constructions on the example page one click issues two.
\<close>

theorem click_path_on_empty_host_counterexample:
  "UploadURL_constructor (example_page\<lparr>location_host := []\<rparr>) = (Inr 0, local_page) \<and>
   location_host local_page = [] \<and>
   network (dispatchEvent 3 example_click local_page) = [click_request 0 example_click local_page] \<and>
   req_method (click_request 0 example_click local_page) = ''POST'' \<and>
   req_url (click_request 0 example_click local_page) = ''http:///api/v1/upload_url'' \<and>
   url_path (req_url (click_request 0 example_click local_page)) = Some ''/v1/upload_url'' \<and>
   url_path (req_url (click_request 0 example_click local_page)) \<noteq> Some ''/api/v1/upload_url'' \<and>
   UploadURL_constructor constructed_page = (Inr (Suc 0), twice_constructed_page) \<and>
   network twice_constructed_page = [] \<and>
   length (network (dispatchEvent 3 example_click twice_constructed_page)) = 2"
proof -
  have u: "req_url (click_request 0 example_click local_page) = ''http:///api/v1/upload_url''"
    by (simp add: click_request_eq local_facts)
  have p: "url_path (req_url (click_request 0 example_click local_page)) = Some ''/v1/upload_url''"
    using url_path_empty_host by (simp only: u)
  have n: "network (dispatchEvent 3 example_click local_page) =
      [click_request 0 example_click local_page]"
    by (simp add: dispatchEvent_effect example_click_type local_facts)
  have m: "req_method (click_request 0 example_click local_page) = ''POST''"
    by (simp add: click_request_eq)
  have two: "length (network (dispatchEvent 3 example_click twice_constructed_page)) = 2"
    by (simp add: dispatchEvent_effect example_click_type twice_facts)
  show ?thesis
    using local_page_eq local_facts(1) n m u p two twice_constructed_page_eq twice_facts(1)
    by simp
qed

text \<open>
  C1, amended. After an \<open>UploadURL\<close> object has been constructed, and whatever happens
  on the page later, a click event delivered to \<open>#upload-url-btn\<close> calls every click
  listener registered on the button, the handler bound to the constructed object among
  them, and each call issues exactly one request, with method POST. The click issues
  exactly one request when the button had no listener before the construction and no
  other \<open>UploadURL\<close> is constructed. The path of the URL of each request is
  \<open>/api/v1/upload_url\<close>, provided \<open>window.location.host\<close> is a host name, with a port or
  without: not empty, and free of the characters that end an authority.
\<close>

theorem click_on_button_after_construction:
  assumes c: "UploadURL_constructor w0 = (Inr a, w1)"
    and b: "document w0 ''#upload-url-btn'' = Some b"
    and e: "ev_type ev = ''click''"
  shows "document (run acts w1) ''#upload-url-btn'' = Some b \<and>
    network (dispatchEvent b ev (run acts w1)) =
      network (run acts w1) @
        map (\<lambda>l. listener_request l ev (run acts w1)) (listeners_for ''click'' b (run acts w1)) \<and>
    BoundHandleUploadButtonBlick a \<in> set (listeners_for ''click'' b (run acts w1)) \<and>
    (el_listeners (elements w0 b) = [] \<and> Construct \<notin> set acts \<longrightarrow>
       listeners_for ''click'' b (run acts w1) = [BoundHandleUploadButtonBlick a] \<and>
       network (dispatchEvent b ev (run acts w1)) =
         network (run acts w1) @ [click_request a ev (run acts w1)]) \<and>
    (\<forall>l \<in> set (listeners_for ''click'' b (run acts w1)).
       req_method (listener_request l ev (run acts w1)) = ''POST'' \<and>
       (valid_host (location_host (run acts w1)) \<longrightarrow>
          url_path (req_url (listener_request l ev (run acts w1))) = Some ''/api/v1/upload_url''))"
proof -
  let ?w = "run acts w1"
  obtain b' t where t: "document w0 ''#upload_url_csrf_token'' = Some t"
    using constructor_succeeds_only_with_both [OF c] by blast
  have a: "a = next_addr w0"
    using c constructor_ok [OF b t] by simp
  have w1: "w1 = snd (UploadURL_constructor w0)"
    using c by simp
  have reg: "el_listeners (elements w1 b) =
      el_listeners (elements w0 b) @ [(''click'', BoundHandleUploadButtonBlick a)]"
    using constructor_ok [OF b t] by (simp add: w1 a)
  obtain xs where xs: "el_listeners (elements ?w b) = el_listeners (elements w1 b) @ xs"
      "Construct \<notin> set acts \<longrightarrow> xs = []"
    using run_listeners [of acts w1 b] by blast
  have doc: "document ?w ''#upload-url-btn'' = Some b"
    using token_after_run(3) [OF c t, of acts] b by simp
  have net: "network (dispatchEvent b ev ?w) =
      network ?w @ map (\<lambda>l. listener_request l ev ?w) (listeners_for ''click'' b ?w)"
    using dispatchEvent_effect(2) [of b ev ?w] by (simp add: e)
  have mem: "BoundHandleUploadButtonBlick a \<in> set (listeners_for ''click'' b ?w)"
    by (simp add: listeners_for_def xs(1) reg)
  have one: "listeners_for ''click'' b ?w = [BoundHandleUploadButtonBlick a]"
    if "el_listeners (elements w0 b) = []" "Construct \<notin> set acts"
    using that xs by (simp add: listeners_for_def reg)
  have single: "network (dispatchEvent b ev ?w) = network ?w @ [click_request a ev ?w]"
    if "el_listeners (elements w0 b) = []" "Construct \<notin> set acts"
    using net one [OF that] by simp
  have post: "req_method (listener_request l ev ?w) = ''POST'' \<and>
       (valid_host (location_host ?w) \<longrightarrow>
          url_path (req_url (listener_request l ev ?w)) = Some ''/api/v1/upload_url'')" for l
    using listener_request_post [where l = l and ev = ev and w = "?w"] by blast
  show ?thesis
    using doc net mem one single post by blast
qed

theorem click_on_button_after_construction_witness:
  "UploadURL_constructor example_page = (Inr 0, constructed_page) \<and>
   document example_page ''#upload-url-btn'' = Some 3 \<and>
   ev_type example_click = ''click'' \<and>
   el_listeners (elements example_page 3) = [] \<and>
   Construct \<notin> set [SetValue ''#upload_url_csrf_token'' ''tok2''] \<and>
   valid_host (location_host changed_page) \<and>
   document changed_page ''#upload-url-btn'' = Some 3 \<and>
   listeners_for ''click'' 3 changed_page = [BoundHandleUploadButtonBlick 0] \<and>
   network (dispatchEvent 3 example_click changed_page) =
     network changed_page @ [click_request 0 example_click changed_page] \<and>
   req_method (click_request 0 example_click changed_page) = ''POST'' \<and>
   url_path (req_url (click_request 0 example_click changed_page)) = Some ''/api/v1/upload_url'' \<and>
   listeners_for ''click'' 3 twice_constructed_page =
     [BoundHandleUploadButtonBlick 0, BoundHandleUploadButtonBlick (Suc 0)] \<and>
   network (dispatchEvent 3 example_click twice_constructed_page) =
     network twice_constructed_page @
       [click_request 0 example_click twice_constructed_page,
        click_request (Suc 0) example_click twice_constructed_page] \<and>
   url_path (req_url (click_request (Suc 0) example_click twice_constructed_page)) =
     Some ''/api/v1/upload_url''"
proof -
  have h: "el_listeners (elements example_page 3) = [] \<and>
      Construct \<notin> set [SetValue ''#upload_url_csrf_token'' ''tok2'']"
    by (simp add: example_facts)
  have v: "valid_host (location_host changed_page)"
    by (simp add: changed_page_host example_host_valid)
  have v2: "valid_host (location_host twice_constructed_page)"
    by (simp add: twice_constructed_page_def run_def constructor_frame constructed_facts
        example_host_valid)
  note one = click_on_button_after_construction
    [OF constructed_page_eq example_facts(1) example_click_type,
      of "[SetValue ''#upload_url_csrf_token'' ''tok2'']", folded changed_page_def]
  note two = click_on_button_after_construction
    [OF constructed_page_eq example_facts(1) example_click_type,
      of "[Construct]", folded twice_constructed_page_def]
  have a: "document changed_page ''#upload-url-btn'' = Some 3 \<and>
     listeners_for ''click'' 3 changed_page = [BoundHandleUploadButtonBlick 0] \<and>
     network (dispatchEvent 3 example_click changed_page) =
       network changed_page @ [click_request 0 example_click changed_page] \<and>
     req_method (click_request 0 example_click changed_page) = ''POST'' \<and>
     url_path (req_url (click_request 0 example_click changed_page)) = Some ''/api/v1/upload_url''"
    using one h v by auto
  have b: "network (dispatchEvent 3 example_click twice_constructed_page) =
     network twice_constructed_page @
       [click_request 0 example_click twice_constructed_page,
        click_request (Suc 0) example_click twice_constructed_page] \<and>
   url_path (req_url (click_request (Suc 0) example_click twice_constructed_page)) =
     Some ''/api/v1/upload_url''"
    using two v2 by (auto simp: twice_facts)
  show ?thesis
    using a b h v by (simp add: constructed_page_eq example_facts example_click_type twice_facts)
qed

text \<open>
  C2, as stated, fails. The claim takes the header to be the value the hidden field has
  when the button is clicked. On the example page the object is constructed while the
  field holds \<open>tok1\<close>; the field is then set to \<open>tok2\<close>; the click that follows sends
  \<open>tok1\<close>, not the \<open>tok2\<close> the field holds at that moment.
\<close>

theorem csrf_header_click_time_counterexample:
  "UploadURL_constructor example_page = (Inr 0, constructed_page) \<and>
   changed_page = run [SetValue ''#upload_url_csrf_token'' ''tok2''] constructed_page \<and>
   document changed_page ''#upload_url_csrf_token'' = Some 4 \<and>
   el_value (elements changed_page 4) = ''tok2'' \<and>
   map_of (req_headers (click_request 0 example_click changed_page)) ''X-CSRFToken'' = Some ''tok1'' \<and>
   map_of (req_headers (click_request 0 example_click changed_page)) ''X-CSRFToken'' \<noteq>
     Some (el_value (elements changed_page 4))"
  by (simp add: constructed_page_eq changed_facts header_of_click ToString_def)
    (simp add: changed_page_def)

text \<open>
  C2, amended. After a construction and anything that then happens on the page, a click
  sends the header \<open>X-CSRFToken\<close> with the value that \<open>#upload_url_csrf_token\<close> has at
  the click, provided the field still holds the value it had when the object was
  constructed.
\<close>

theorem csrf_header_of_unchanged_field:
  assumes "UploadURL_constructor w0 = (Inr a, w1)"
    and "document (run acts w1) ''#upload_url_csrf_token'' = Some t"
    and "el_value (elements (run acts w1) t) = el_value (elements w0 t)"
  shows "map_of (req_headers (click_request a ev (run acts w1))) ''X-CSRFToken'' =
           Some (el_value (elements (run acts w1) t))"
proof -
  obtain b t' where t': "document w0 ''#upload_url_csrf_token'' = Some t'"
    using constructor_succeeds_only_with_both [OF assms(1)] by blast
  have "document (run acts w1) = document w0"
    using token_after_run(3) [OF assms(1) t'] .
  with assms(2) have "document w0 ''#upload_url_csrf_token'' = Some t" by simp
  then have "csrfToken (heap (run acts w1) a) = JStr (el_value (elements w0 t))"
    using token_after_run(1) [OF assms(1)] by simp
  then show ?thesis
    using assms(3) by (simp add: header_of_click ToString_def)
qed

theorem csrf_header_of_unchanged_field_witness:
  "UploadURL_constructor example_page = (Inr 0, constructed_page) \<and>
   document (run [Dispatch 3 other_click] constructed_page) ''#upload_url_csrf_token'' = Some 4 \<and>
   el_value (elements (run [Dispatch 3 other_click] constructed_page) 4) =
     el_value (elements example_page 4) \<and>
   map_of (req_headers (click_request 0 example_click (run [Dispatch 3 other_click] constructed_page)))
     ''X-CSRFToken'' = Some ''tok1''"
proof -
  have d: "document (run [Dispatch 3 other_click] constructed_page) ''#upload_url_csrf_token'' = Some 4"
    by (simp add: run_def dispatchEvent_frame constructed_facts)
  have e: "elements (run [Dispatch 3 other_click] constructed_page) = elements constructed_page"
    by (simp add: run_def dispatchEvent_def constructed_facts other_click_def handler_result)
  have "el_value (elements constructed_page 4) = ''tok1''"
    using constructor_ok [of example_page 3 4]
    by (simp add: constructed_page_def example_facts)
  then have v: "el_value (elements (run [Dispatch 3 other_click] constructed_page) 4) =
     el_value (elements example_page 4)"
    by (simp add: e example_facts)
  show ?thesis
    using csrf_header_of_unchanged_field [OF constructed_page_eq d v, of example_click] d v
    by (simp add: constructed_page_eq example_facts)
qed

text \<open>
  C3. The body of the request of a click, read by \<open>JSON.parse\<close>, is an object with
  exactly one member; its key is \<open>url\<close> and its value a string. The request carries the
  header \<open>Content-Type: application/json\<close>.
\<close>

theorem request_body_and_content_type:
  "(\<exists>s. JSON_parse (req_body (click_request this ev w)) = Some (JsonObject [(''url'', JsonString s)])) \<and>
   map_of (req_headers (click_request this ev w)) ''Content-Type'' = Some ''application/json''"
proof -
  have "JSON_parse (req_body (click_request this ev w)) =
    Some (JsonObject [(''url'', JsonString ''https://flask.palletsprojects.com/en/3.0.x/extensions'')])"
    using parse_payload by (simp only: click_request_eq request.simps)
  moreover have "map_of (req_headers (click_request this ev w)) ''Content-Type'' = Some ''application/json''"
    by (simp add: click_request_eq)
  ultimately show ?thesis by blast
qed

text \<open>
  C4. A call of the handler leaves the page as it was but for one request more on the
  network: the elements and their listeners, the document, every \<open>UploadURL\<close> object
  and the location are unchanged, and the network is longer by exactly one.
\<close>

theorem click_changes_only_the_network:
  "snd (handleUploadButtonBlick this ev w) = w\<lparr>network := network w @ [click_request this ev w]\<rparr> \<and>
   elements (snd (handleUploadButtonBlick this ev w)) = elements w \<and>
   document (snd (handleUploadButtonBlick this ev w)) = document w \<and>
   heap (snd (handleUploadButtonBlick this ev w)) = heap w \<and>
   length (network (snd (handleUploadButtonBlick this ev w))) = Suc (length (network w))"
  by (simp add: click_request_def handler_result del: JSON_stringify.simps)

text \<open>
  C5. The handler does not look at what becomes of the request. Whatever the network
  answers (\<open>s\<close>, which may fulfil with any status or reject), the call returns
  \<open>undefined\<close>, has put the same single request on the network, has changed nothing
  else, and leaves every object as it was.
\<close>

theorem click_is_fire_and_forget:
  "handleUploadButtonBlick this ev (w\<lparr>server := s\<rparr>) =
     (JUndefined, w\<lparr>server := s, network := network w @ [click_request this ev w]\<rparr>) \<and>
   heap (snd (handleUploadButtonBlick this ev (w\<lparr>server := s\<rparr>))) = heap w"
  by (simp add: click_request_def handler_result del: JSON_stringify.simps)

text \<open>
  C6. The token is read when the object is constructed. Whatever happens on the page
  afterwards (clicks, changes of the value of any element, the hidden field among them,
  further constructions), a click handled for this object sends in \<open>X-CSRFToken\<close> the
  value the hidden field had at the construction.
\<close>

theorem csrf_token_read_at_construction:
  assumes "UploadURL_constructor w0 = (Inr a, w1)"
    and "document w0 ''#upload_url_csrf_token'' = Some t"
  shows "map_of (req_headers (click_request a ev (run acts w1))) ''X-CSRFToken'' =
           Some (el_value (elements w0 t))"
  using token_after_run(1) [OF assms, of acts]
  by (simp add: header_of_click ToString_def)

theorem csrf_token_read_at_construction_witness:
  "UploadURL_constructor example_page = (Inr 0, constructed_page) \<and>
   document example_page ''#upload_url_csrf_token'' = Some 4 \<and>
   el_value (elements example_page 4) = ''tok1'' \<and>
   el_value (elements (run [SetValue ''#upload_url_csrf_token'' ''tok2''] constructed_page) 4) = ''tok2'' \<and>
   map_of (req_headers (click_request 0 example_click
       (run [SetValue ''#upload_url_csrf_token'' ''tok2''] constructed_page))) ''X-CSRFToken'' =
     Some ''tok1''"
proof -
  have v: "el_value (elements (run [SetValue ''#upload_url_csrf_token'' ''tok2''] constructed_page) 4) = ''tok2''"
    using changed_facts(1) by (simp only: changed_page_def)
  show ?thesis
    using csrf_token_read_at_construction [OF constructed_page_eq example_facts(2),
        of example_click "[SetValue ''#upload_url_csrf_token'' ''tok2'']"] v
    by (simp add: constructed_page_eq example_facts)
qed

text \<open>
  C7, as stated, fails. The claim says that no listener is registered when one of the two
  elements is absent. On the page with the button and without the hidden field the
  constructor throws, and the button, which had no listener, has the click listener of
  the unfinished object afterwards.
\<close>

theorem constructor_listener_without_token_counterexample:
  "document page_without_token ''#upload-url-btn'' = Some 3 \<and>
   document page_without_token ''#upload_url_csrf_token'' = None \<and>
   el_listeners (elements page_without_token 3) = [] \<and>
   fst (UploadURL_constructor page_without_token) = Inl TypeError \<and>
   el_listeners (elements (snd (UploadURL_constructor page_without_token)) 3) =
     [(''click'', BoundHandleUploadButtonBlick 0)]"
proof -
  have b: "document page_without_token ''#upload-url-btn'' = Some 3"
    and t: "document page_without_token ''#upload_url_csrf_token'' = None"
    by (simp_all add: page_without_token_def)
  show ?thesis
    by (simp add: b t constructor_no_token [OF b t]) (simp add: page_without_token_def example_page_def)
qed

text \<open>
  C7, amended. With both elements in the document the constructor succeeds and has
  registered its click listener on the button. With either of them absent it throws a
  \<open>TypeError\<close>. When the button is absent no element is changed, so no listener is
  registered; when the button is present and the hidden field absent, the listener has
  been registered on the button before the constructor throws.
\<close>

theorem constructor_needs_both_elements:
  "(document w ''#upload-url-btn'' = Some b \<and> document w ''#upload_url_csrf_token'' = Some t \<longrightarrow>
      fst (UploadURL_constructor w) = Inr (next_addr w) \<and>
      el_listeners (elements (snd (UploadURL_constructor w)) b) =
        el_listeners (elements w b) @ [(''click'', BoundHandleUploadButtonBlick (next_addr w))]) \<and>
   (document w ''#upload-url-btn'' = None \<or> document w ''#upload_url_csrf_token'' = None \<longrightarrow>
      fst (UploadURL_constructor w) = Inl TypeError) \<and>
   (document w ''#upload-url-btn'' = None \<longrightarrow>
      elements (snd (UploadURL_constructor w)) = elements w) \<and>
   (document w ''#upload-url-btn'' = Some b \<and> document w ''#upload_url_csrf_token'' = None \<longrightarrow>
      el_listeners (elements (snd (UploadURL_constructor w)) b) =
        el_listeners (elements w b) @ [(''click'', BoundHandleUploadButtonBlick (next_addr w))])"
proof -
  have both: "fst (UploadURL_constructor w) = Inr (next_addr w) \<and>
      el_listeners (elements (snd (UploadURL_constructor w)) b) =
        el_listeners (elements w b) @ [(''click'', BoundHandleUploadButtonBlick (next_addr w))]"
    if "document w ''#upload-url-btn'' = Some b" "document w ''#upload_url_csrf_token'' = Some t"
    using constructor_ok [OF that] by simp
  have nobtn: "fst (UploadURL_constructor w) = Inl TypeError \<and>
      elements (snd (UploadURL_constructor w)) = elements w"
    if "document w ''#upload-url-btn'' = None"
    using constructor_no_button [OF that] by simp
  have notok: "fst (UploadURL_constructor w) = Inl TypeError \<and>
      el_listeners (elements (snd (UploadURL_constructor w)) b') =
        el_listeners (elements w b') @ [(''click'', BoundHandleUploadButtonBlick (next_addr w))]"
    if "document w ''#upload-url-btn'' = Some b'" "document w ''#upload_url_csrf_token'' = None" for b'
    using constructor_no_token [OF that] by simp
  have either: "fst (UploadURL_constructor w) = Inl TypeError"
    if "document w ''#upload-url-btn'' = None \<or> document w ''#upload_url_csrf_token'' = None"
  proof (cases "document w ''#upload-url-btn''")
    case None
    then show ?thesis using nobtn by simp
  next
    case (Some b')
    with that have "document w ''#upload_url_csrf_token'' = None" by simp
    with Some show ?thesis using notok by simp
  qed
  show ?thesis
    using both nobtn notok either by blast
qed

theorem constructor_needs_both_elements_witness:
  "(document example_page ''#upload-url-btn'' = Some 3 \<and>
    document example_page ''#upload_url_csrf_token'' = Some 4 \<and>
    fst (UploadURL_constructor example_page) = Inr 0 \<and>
    el_listeners (elements (snd (UploadURL_constructor example_page)) 3) =
      [(''click'', BoundHandleUploadButtonBlick 0)]) \<and>
   (document page_without_button ''#upload-url-btn'' = None \<and>
    fst (UploadURL_constructor page_without_button) = Inl TypeError \<and>
    elements (snd (UploadURL_constructor page_without_button)) = elements page_without_button) \<and>
   (document page_without_token ''#upload-url-btn'' = Some 3 \<and>
    document page_without_token ''#upload_url_csrf_token'' = None \<and>
    fst (UploadURL_constructor page_without_token) = Inl TypeError \<and>
    el_listeners (elements (snd (UploadURL_constructor page_without_token)) 3) =
      [(''click'', BoundHandleUploadButtonBlick 0)])"
proof -
  have nb: "document page_without_button ''#upload-url-btn'' = None"
    by (simp add: page_without_button_def)
  have b: "document page_without_token ''#upload-url-btn'' = Some 3"
    and t: "document page_without_token ''#upload_url_csrf_token'' = None"
    and z: "el_listeners (elements page_without_token 3) = []" "next_addr page_without_token = 0"
    by (simp_all add: page_without_token_def example_page_def)
  show ?thesis
    using constructor_needs_both_elements [of example_page 3 4]
      constructor_needs_both_elements [of page_without_button 3 4]
      constructor_needs_both_elements [of page_without_token 3 4]
    by (simp add: example_facts nb b t z)
qed

text \<open>
  C8. The \<open>url\<close> member of the body is the string
  \<open>https://flask.palletsprojects.com/en/3.0.x/extensions\<close> at every click, and the body is
  the same for any two calls, whatever the object, the event and the page (the values
  of its elements among the rest).
\<close>

theorem payload_is_the_constant_url:
  "JSON_parse (req_body (click_request this ev w)) =
     Some (JsonObject [(''url'', JsonString ''https://flask.palletsprojects.com/en/3.0.x/extensions'')]) \<and>
   req_body (click_request this ev w) = req_body (click_request this' ev' w')"
proof -
  have "JSON_parse (req_body (click_request this ev w)) =
    Some (JsonObject [(''url'', JsonString ''https://flask.palletsprojects.com/en/3.0.x/extensions'')])"
    using parse_payload by (simp only: click_request_eq request.simps)
  moreover have "req_body (click_request this ev w) = req_body (click_request this' ev' w')"
    by (simp only: click_request_eq request.simps)
  ultimately show ?thesis by blast
qed

text \<open>
  C9. The URL of the request is \<open>http://\<close>, then \<open>window.location.host\<close> of the page
  at the click, then \<open>/api/v1/upload_url\<close>; the protocol of the page has no part in it.
\<close>

theorem request_url_is_http_host_path:
  "req_url (click_request this ev w) = ''http://'' @ location_host w @ ''/api/v1/upload_url'' \<and>
   req_url (click_request this ev (w\<lparr>location_protocol := p\<rparr>)) = req_url (click_request this ev w)"
  by (simp add: click_request_eq)

text \<open>
  C10. Two clicks handled for the same object give the same request, whatever the two
  events are: on any two pages with the same host on which the object is in the same
  state, and so at any two moments after the construction of the object. The result of
  a call of the handler does not depend on its event.
\<close>

theorem click_request_ignores_the_event:
  "(location_host w = location_host w' \<and> heap w this = heap w' this \<longrightarrow>
      click_request this ev w = click_request this ev' w') \<and>
   (UploadURL_constructor w0 = (Inr a, w1) \<longrightarrow>
      click_request a ev (run acts w1) = click_request a ev' (run acts' w1)) \<and>
   handleUploadButtonBlick this ev w = handleUploadButtonBlick this ev' w"
proof -
  have g: "click_request this ev w = click_request this ev' w'"
    if "location_host w = location_host w'" "heap w this = heap w' this"
    using that by (simp only: click_request_eq)
  have r: "click_request a ev (run acts w1) = click_request a ev' (run acts' w1)"
    if c: "UploadURL_constructor w0 = (Inr a, w1)"
  proof -
    obtain b t where t: "document w0 ''#upload_url_csrf_token'' = Some t"
      using constructor_succeeds_only_with_both [OF c] by blast
    show ?thesis
      using token_after_run(1,2) [OF c t, of acts] token_after_run(1,2) [OF c t, of acts']
      by (simp only: click_request_eq)
  qed
  have "handleUploadButtonBlick this ev w = handleUploadButtonBlick this ev' w"
    by (simp only: handler_result)
  with g r show ?thesis by blast
qed

theorem click_request_ignores_the_event_witness:
  "location_host constructed_page = location_host changed_page \<and>
   heap constructed_page 0 = heap changed_page 0 \<and>
   UploadURL_constructor example_page = (Inr 0, constructed_page) \<and>
   example_click \<noteq> other_click \<and>
   click_request 0 example_click constructed_page = click_request 0 other_click changed_page \<and>
   click_request 0 example_click (run [Dispatch 3 other_click] constructed_page) =
     click_request 0 other_click (run [Construct] constructed_page)"
proof -
  have h: "location_host constructed_page = location_host changed_page"
    "heap constructed_page 0 = heap changed_page 0"
    by (simp_all add: changed_page_def run_def constructed_facts)
  have ne: "example_click \<noteq> other_click"
    by (simp add: example_click_def other_click_def)
  show ?thesis
    using click_request_ignores_the_event [of constructed_page changed_page 0 example_click other_click
        example_page 0 constructed_page "[Dispatch 3 other_click]" "[Construct]"] h ne
    by (simp add: constructed_page_eq)
qed

end
